theory Spec2Isabelle
  imports Main "HOL-Library.Word"
begin

section \<open>Threshold-based temporary layer input processor\<close>

text \<open>
  A shallow embedding of \<^verbatim>\<open>config/src/input_processor_temp_layer_threshold.c\<close>.
  The C integers are words of their width: \<^verbatim>\<open>int32_t\<close> and \<^verbatim>\<open>uint32_t\<close> are
  \<open>32 word\<close>, \<^verbatim>\<open>int64_t\<close> is \<open>64 word\<close>, \<^verbatim>\<open>int8_t\<close> and \<^verbatim>\<open>uint8_t\<close> are \<open>8 word\<close>.
  Signed values are read with \<open>sint\<close> and compared with \<open><s\<close> and \<open><=s\<close>; arithmetic
  wraps around (two's complement), which is what the target compiler produces.
\<close>

subsection \<open>Data model\<close>

text \<open>
  \<^verbatim>\<open>struct temp_layer_threshold_config\<close>. The array \<^verbatim>\<open>excluded_positions\<close> and its
  length \<^verbatim>\<open>num_positions\<close> are one list.
\<close>

record temp_layer_threshold_config =
  threshold :: "32 word"
  threshold_time_ms :: "32 word"
  require_prior_idle_ms :: "32 word"
  excluded_positions :: "32 word list"

text \<open>
  A \<^verbatim>\<open>struct k_work_delayable\<close> is modelled by what the kernel knows of it: nothing
  pending (\<open>None\<close>), or the uptime in milliseconds at which its callback is due.
\<close>

type_synonym k_work_delayable = "int option"

text \<open>
  \<^verbatim>\<open>struct temp_layer_threshold_state\<close>, without the back pointer \<^verbatim>\<open>dev\<close>.
\<close>

record temp_layer_threshold_state =
  accumulated_x :: "32 word"
  accumulated_y :: "32 word"
  accumulation_start_time :: "64 word"
  active_layer :: "8 word"
  last_tapped_time :: "64 word"
  layer_active :: bool
  layer_disable_work :: k_work_delayable
  accumulation_reset_work :: k_work_delayable

text \<open>A device instance: \<^verbatim>\<open>dev->config\<close> and \<^verbatim>\<open>dev->data\<close>.\<close>

record device =
  config :: temp_layer_threshold_config
  data :: temp_layer_threshold_state

text \<open>
  The fields of \<^verbatim>\<open>struct input_event\<close> that the processor reads
  (\<^verbatim>\<open>type\<close>, \<^verbatim>\<open>code\<close>, \<^verbatim>\<open>value\<close>).
\<close>

record input_event =
  ev_type :: "8 word"
  ev_code :: "16 word"
  ev_value :: "32 word"

text \<open>
  The fields of \<^verbatim>\<open>struct zmk_position_state_changed\<close> that the listener reads.
\<close>

record zmk_position_state_changed =
  position :: "32 word"
  state :: bool
  timestamp :: "64 word"

text \<open>
  Modelled from the spec: the layer-control primitive \<^verbatim>\<open>activate(layer_id)\<close> /
  \<^verbatim>\<open>deactivate(layer_id)\<close> is an external collaborator
  (\<^verbatim>\<open>zmk_keymap_layer_activate\<close>, \<^verbatim>\<open>zmk_keymap_layer_deactivate\<close>). Its calls are the
  only visible effect of the processor; they are recorded in the order they are made, with
  the \<^verbatim>\<open>uint8_t\<close> layer id that the callee receives.
\<close>

datatype layer_call = Layer_activate "8 word" | Layer_deactivate "8 word"

datatype input_proc_result = ZMK_INPUT_PROC_CONTINUE | ZMK_INPUT_PROC_STOP

datatype event_result = ZMK_EV_EVENT_BUBBLE | ZMK_EV_EVENT_HANDLED | ZMK_EV_EVENT_CAPTURED

subsection \<open>Constants and kernel services used by the processor\<close>

text \<open>
  Modelled from the spec: a motion sample is a relative-motion event on the X or the Y axis.
  The header that names the event type and the two axis codes is Zephyr's
  \<^verbatim>\<open>input-event-codes.h\<close>, not a file of the repository; the values are the ones it
  gives. The properties below need only that the two axis codes differ.
\<close>

definition INPUT_EV_REL :: "8 word" where
  "INPUT_EV_REL = 2"

definition INPUT_REL_X :: "16 word" where
  "INPUT_REL_X = 0"

definition INPUT_REL_Y :: "16 word" where
  "INPUT_REL_Y = 1"

text \<open>
  Modelled from the spec: the deferred-execution facility gives "schedule callback after N
  ms, cancel pending", with one slot per work item, and re-arming replaces what is pending.
  It is Zephyr's, not a file of the repository. \<^verbatim>\<open>K_MSEC(ms)\<close> is a timeout of
  \<^verbatim>\<open>MAX(ms, 0)\<close> milliseconds; \<^verbatim>\<open>k_work_reschedule\<close> replaces whatever is pending
  on the work item by a callback due that long after the current uptime;
  \<^verbatim>\<open>k_work_cancel_delayable\<close> leaves nothing pending.
\<close>

definition K_MSEC :: "int \<Rightarrow> int" where
  "K_MSEC ms = max ms 0"

definition k_work_reschedule :: "64 word \<Rightarrow> int \<Rightarrow> k_work_delayable" where
  "k_work_reschedule uptime delay = Some (sint uptime + delay)"

definition k_work_cancel_delayable :: k_work_delayable where
  "k_work_cancel_delayable = None"

subsection \<open>Timer callbacks\<close>

definition layer_disable_callback ::
  "temp_layer_threshold_state \<Rightarrow> temp_layer_threshold_state \<times> layer_call list" where
  "layer_disable_callback st =
     (if layer_active st \<and> 0 <=s active_layer st
      then (st\<lparr>layer_active := False, active_layer := - 1\<rparr>,
            [Layer_deactivate (active_layer st)])
      else (st, []))"

definition accumulation_reset_callback ::
  "temp_layer_threshold_state \<Rightarrow> temp_layer_threshold_state" where
  "accumulation_reset_callback st = st\<lparr>accumulated_x := 0, accumulated_y := 0\<rparr>"

subsection \<open>The key position listener\<close>

text \<open>The loop of \<^verbatim>\<open>is_position_excluded\<close> over the first \<^verbatim>\<open>num_positions\<close> entries.\<close>

primrec position_in :: "32 word list \<Rightarrow> 32 word \<Rightarrow> bool" where
  "position_in [] p = False"
| "position_in (x # xs) p = (if x = p then True else position_in xs p)"

definition is_position_excluded :: "temp_layer_threshold_config \<Rightarrow> 32 word \<Rightarrow> bool" where
  "is_position_excluded cfg p = position_in (excluded_positions cfg) p"

text \<open>The body of the macro \<^verbatim>\<open>CHECK_LAYER(n)\<close>, for the device instance \<open>n\<close>.\<close>

definition CHECK_LAYER ::
  "zmk_position_state_changed \<Rightarrow> device \<Rightarrow> device \<times> layer_call list" where
  "CHECK_LAYER ev dev =
     (let st = data dev; cfg = config dev in
      case (if layer_active st \<and> \<not> is_position_excluded cfg (position ev)
            then (st\<lparr>layer_disable_work := k_work_cancel_delayable,
                     layer_active := False,
                     active_layer := - 1\<rparr>,
                  [Layer_deactivate (active_layer st)])
            else (st, []))
      of (st1, calls) \<Rightarrow> (dev\<lparr>data := st1\<lparr>last_tapped_time := timestamp ev\<rparr>\<rparr>, calls))"

text \<open>
  \<^verbatim>\<open>DT_INST_FOREACH_STATUS_OKAY(CHECK_LAYER)\<close> expands the macro once for every
  instance, in order.
\<close>

fun FOREACH_CHECK_LAYER ::
  "zmk_position_state_changed \<Rightarrow> device list \<Rightarrow> device list \<times> layer_call list" where
  "FOREACH_CHECK_LAYER ev [] = ([], [])"
| "FOREACH_CHECK_LAYER ev (d # ds) =
     (case CHECK_LAYER ev d of (d', calls) \<Rightarrow>
        (case FOREACH_CHECK_LAYER ev ds of (ds', calls') \<Rightarrow> (d' # ds', calls @ calls')))"

text \<open>
  \<^verbatim>\<open>as_zmk_position_state_changed\<close> gives \<^verbatim>\<open>NULL\<close> (\<open>None\<close>) for an event of
  another kind.
\<close>

definition position_state_changed_listener ::
  "zmk_position_state_changed option \<Rightarrow> device list \<Rightarrow>
     event_result \<times> device list \<times> layer_call list" where
  "position_state_changed_listener eh devs =
     (case eh of
        None \<Rightarrow> (ZMK_EV_EVENT_BUBBLE, devs, [])
      | Some ev \<Rightarrow>
          if \<not> state ev then (ZMK_EV_EVENT_BUBBLE, devs, [])
          else (case FOREACH_CHECK_LAYER ev devs of
                  (devs', calls) \<Rightarrow> (ZMK_EV_EVENT_BUBBLE, devs', calls)))"

subsection \<open>The input processor\<close>

text \<open>
  \<^verbatim>\<open>temp_layer_threshold_handle_event\<close>. The argument \<open>now\<close> is what
  \<^verbatim>\<open>k_uptime_get()\<close> returns; the timers are rescheduled at that same uptime.
\<close>

definition temp_layer_threshold_handle_event ::
  "device \<Rightarrow> input_event \<Rightarrow> 32 word \<Rightarrow> 32 word \<Rightarrow> 64 word \<Rightarrow>
     input_proc_result \<times> device \<times> layer_call list" where
  "temp_layer_threshold_handle_event dev event param1 param2 now =
     (let cfg = config dev;
          st = data dev;
          layer = (ucast param1 :: 8 word);
          timeout_ms = param2
      in
      if 0 <s require_prior_idle_ms cfg \<and>
         (now - last_tapped_time st) <s (scast (require_prior_idle_ms cfg) :: 64 word)
      then (ZMK_INPUT_PROC_CONTINUE, dev, [])
      else
        let st1 =
              (if ev_type event = INPUT_EV_REL then
                 (if ev_code event = INPUT_REL_X then
                    st\<lparr>accumulated_x := accumulated_x st +
                         (if 0 <s ev_value event then ev_value event else - ev_value event)\<rparr>
                  else if ev_code event = INPUT_REL_Y then
                    st\<lparr>accumulated_y := accumulated_y st +
                         (if 0 <s ev_value event then ev_value event else - ev_value event)\<rparr>
                  else st)
               else st);
            total_movement = accumulated_x st1 + accumulated_y st1;
            st2 = st1\<lparr>accumulation_reset_work :=
                        k_work_reschedule now (K_MSEC (sint (threshold_time_ms cfg)))\<rparr>
        in
        if layer_active st2
        then (ZMK_INPUT_PROC_CONTINUE,
              dev\<lparr>data := st2\<lparr>layer_disable_work :=
                                  k_work_reschedule now (K_MSEC (uint timeout_ms))\<rparr>\<rparr>,
              [])
        else if threshold cfg <=s total_movement
        then (ZMK_INPUT_PROC_CONTINUE,
              dev\<lparr>data := st2\<lparr>layer_active := True,
                                active_layer := layer,
                                accumulated_x := 0,
                                accumulated_y := 0,
                                layer_disable_work :=
                                  k_work_reschedule now (K_MSEC (uint timeout_ms))\<rparr>\<rparr>,
              [Layer_activate layer])
        else (ZMK_INPUT_PROC_CONTINUE, dev\<lparr>data := st2\<rparr>, []))"

text \<open>
  \<^verbatim>\<open>temp_layer_threshold_init\<close>: the fields it assigns, and the two work items
  initialised with nothing pending. It returns 0.
\<close>

definition temp_layer_threshold_init :: "device \<Rightarrow> int \<times> device" where
  "temp_layer_threshold_init dev =
     (0, dev\<lparr>data := (data dev)\<lparr>accumulated_x := 0,
                                 accumulated_y := 0,
                                 active_layer := - 1,
                                 layer_active := False,
                                 last_tapped_time := 0,
                                 layer_disable_work := None,
                                 accumulation_reset_work := None\<rparr>\<rparr>)"

text \<open>
  \<^verbatim>\<open>TEMP_LAYER_THRESHOLD_INST(n)\<close> defines the state of an instance as
  \<^verbatim>\<open>state_n = {}\<close>, all fields zero, and registers \<^verbatim>\<open>temp_layer_threshold_init\<close> to
  run on it at boot.
\<close>

definition zero_state :: temp_layer_threshold_state where
  "zero_state =
     \<lparr>accumulated_x = 0, accumulated_y = 0, accumulation_start_time = 0,
      active_layer = 0, last_tapped_time = 0, layer_active = False,
      layer_disable_work = None, accumulation_reset_work = None\<rparr>"

definition TEMP_LAYER_THRESHOLD_INST :: "temp_layer_threshold_config \<Rightarrow> device" where
  "TEMP_LAYER_THRESHOLD_INST cfg =
     snd (temp_layer_threshold_init \<lparr>config = cfg, data = zero_state\<rparr>)"

subsection \<open>Notions used in the statements\<close>

text \<open>
  The idle gate lets a motion event through unless \<^verbatim>\<open>require_prior_idle_ms\<close> is
  positive and the event comes less than that long after \<^verbatim>\<open>last_tapped_time\<close>.
\<close>

definition idle_gate_passes ::
  "temp_layer_threshold_config \<Rightarrow> temp_layer_threshold_state \<Rightarrow> 64 word \<Rightarrow> bool" where
  "idle_gate_passes cfg st now =
     (\<not> (0 <s require_prior_idle_ms cfg \<and>
         (now - last_tapped_time st) <s (scast (require_prior_idle_ms cfg) :: 64 word)))"

text \<open>What one event adds to the accumulators: the magnitude of a relative X or Y motion.\<close>

definition movement :: "input_event \<Rightarrow> 32 word" where
  "movement event =
     (if ev_type event = INPUT_EV_REL \<and>
         (ev_code event = INPUT_REL_X \<or> ev_code event = INPUT_REL_Y)
      then (if 0 <s ev_value event then ev_value event else - ev_value event)
      else 0)"

text \<open>
  The invariant of the specification: the layer is held active exactly when a non-negative
  layer id is stored in \<^verbatim>\<open>active_layer\<close>.
\<close>

definition layer_invariant :: "temp_layer_threshold_state \<Rightarrow> bool" where
  "layer_invariant st = (layer_active st = (0 <=s active_layer st))"

text \<open>
  One call of the processor: the event, the two parameters of the calling pipeline stage and
  the uptime at the call.
\<close>

record motion =
  m_event :: input_event
  m_param1 :: "32 word"
  m_param2 :: "32 word"
  m_now :: "64 word"

text \<open>
  What is delivered to one device instance: a motion event to the processor, or a key
  position event to the listener.
\<close>

datatype delivery = Motion motion | Key zmk_position_state_changed

fun deliver :: "device \<Rightarrow> delivery \<Rightarrow> device \<times> layer_call list" where
  "deliver dev (Motion m) =
     (case temp_layer_threshold_handle_event dev (m_event m) (m_param1 m) (m_param2 m) (m_now m)
      of (r, dev', calls) \<Rightarrow> (dev', calls))"
| "deliver dev (Key ev) =
     (case position_state_changed_listener (Some ev) [dev]
      of (r, devs', calls) \<Rightarrow> (hd devs', calls))"

text \<open>
  A sequence of deliveries handled one after the other, with no timer callback in between.
  The result lists, for every delivery, the device after it and the keymap calls it made.
\<close>

fun deliver_all :: "device \<Rightarrow> delivery list \<Rightarrow> (device \<times> layer_call list) list" where
  "deliver_all dev [] = []"
| "deliver_all dev (d # ds) =
     (case deliver dev d of (dev', calls) \<Rightarrow> (dev', calls) # deliver_all dev' ds)"

text \<open>
  A qualifying key press is one that the listener answers by deactivating the layer: a
  press, while the layer is active, on a position that is not excluded.
\<close>

definition qualifying_press :: "device \<Rightarrow> zmk_position_state_changed \<Rightarrow> bool" where
  "qualifying_press dev ev =
     (state ev \<and> layer_active (data dev) \<and>
      position ev \<notin> set (excluded_positions (config dev)))"

text \<open>
  A sequence is undisturbed when every motion event in it passes the idle gate and no key
  event in it is a qualifying press, each judged on the device as it is at that moment.
\<close>

fun undisturbed :: "device \<Rightarrow> delivery list \<Rightarrow> bool" where
  "undisturbed dev [] = True"
| "undisturbed dev (Motion m # ds) =
     (idle_gate_passes (config dev) (data dev) (m_now m) \<and>
      undisturbed (fst (deliver dev (Motion m))) ds)"
| "undisturbed dev (Key ev # ds) =
     (\<not> qualifying_press dev ev \<and> undisturbed (fst (deliver dev (Key ev))) ds)"

text \<open>
  The sum \<^verbatim>\<open>accumulated_x + accumulated_y\<close> after a sequence of deliveries whose motion
  events all accumulate: what the device has stored plus the movement of every motion event.
\<close>

fun moved :: "delivery \<Rightarrow> 32 word" where
  "moved (Motion m) = movement (m_event m)"
| "moved (Key ev) = 0"

definition total_after :: "device \<Rightarrow> delivery list \<Rightarrow> 32 word" where
  "total_after dev ds =
     accumulated_x (data dev) + accumulated_y (data dev) + sum_list (map moved ds)"

text \<open>Events and a configuration for the scenarios of the specification.\<close>

definition rel_x :: "32 word \<Rightarrow> input_event" where
  "rel_x v = \<lparr>ev_type = INPUT_EV_REL, ev_code = INPUT_REL_X, ev_value = v\<rparr>"

definition rel_y :: "32 word \<Rightarrow> input_event" where
  "rel_y v = \<lparr>ev_type = INPUT_EV_REL, ev_code = INPUT_REL_Y, ev_value = v\<rparr>"

definition scenario_config :: "32 word \<Rightarrow> 32 word list \<Rightarrow> temp_layer_threshold_config" where
  "scenario_config idle excluded =
     \<lparr>threshold = 50, threshold_time_ms = 100, require_prior_idle_ms = idle,
      excluded_positions = excluded\<rparr>"

definition scenario_device :: "32 word \<Rightarrow> 32 word list \<Rightarrow> device" where
  "scenario_device idle excluded = TEMP_LAYER_THRESHOLD_INST (scenario_config idle excluded)"

definition key_press :: "32 word \<Rightarrow> 64 word \<Rightarrow> zmk_position_state_changed" where
  "key_press p t = \<lparr>position = p, state = True, timestamp = t\<rparr>"

definition key_release :: "32 word \<Rightarrow> 64 word \<Rightarrow> zmk_position_state_changed" where
  "key_release p t = \<lparr>position = p, state = False, timestamp = t\<rparr>"

text \<open>
  The scenario device after a first motion of 60 at uptime 0, handled for layer 1 with a
  timeout of 200 ms: the layer is active and the disable timer is due at 200.
\<close>

definition scenario_active :: "32 word \<Rightarrow> 32 word list \<Rightarrow> device" where
  "scenario_active idle excluded =
     fst (snd (temp_layer_threshold_handle_event (scenario_device idle excluded) (rel_x 60) 1 200 0))"

text \<open>
  The active scenario device after a second motion of 60 at uptime 10: the layer is still
  active and \<^verbatim>\<open>accumulated_x\<close> is 60.
\<close>

definition scenario_moved :: "32 word \<Rightarrow> 32 word list \<Rightarrow> device" where
  "scenario_moved idle excluded =
     fst (snd (temp_layer_threshold_handle_event (scenario_active idle excluded) (rel_x 60) 1 200 10))"

text \<open>A single device after a key event has gone through the listener.\<close>

definition after_key_event :: "zmk_position_state_changed \<Rightarrow> device \<Rightarrow> device" where
  "after_key_event ev dev = hd (fst (snd (position_state_changed_listener (Some ev) [dev])))"

text \<open>
  A sequence for a device with position 5 excluded and an idle gate of 5 ms: motion of 30,
  a key press while the layer is inactive, motion of 25 on the other axis, a press of the
  excluded key, more motion, a key release.
\<close>

definition scenario_deliveries :: "delivery list" where
  "scenario_deliveries =
     [Motion \<lparr>m_event = rel_x 30, m_param1 = 1, m_param2 = 200, m_now = 10\<rparr>,
      Key (key_press 3 15),
      Motion \<lparr>m_event = rel_y (- 25), m_param1 = 1, m_param2 = 200, m_now = 20\<rparr>,
      Key (key_press 5 25),
      Motion \<lparr>m_event = rel_x 40, m_param1 = 1, m_param2 = 200, m_now = 30\<rparr>,
      Key (key_release 3 32)]"

section \<open>Properties\<close>

subsection \<open>Auxiliary facts\<close>

lemma position_in_set: "position_in xs p \<longleftrightarrow> p \<in> set xs"
  by (induction xs) auto

lemma is_position_excluded_iff:
  "is_position_excluded cfg p \<longleftrightarrow> p \<in> set (excluded_positions cfg)"
  by (simp add: is_position_excluded_def position_in_set)

lemma FOREACH_CHECK_LAYER_map:
  "FOREACH_CHECK_LAYER ev devs =
     (map (\<lambda>d. fst (CHECK_LAYER ev d)) devs, concat (map (\<lambda>d. snd (CHECK_LAYER ev d)) devs))"
  by (induction devs) (auto split: prod.splits)

lemma listener_press:
  "state ev \<Longrightarrow> position_state_changed_listener (Some ev) devs =
     (ZMK_EV_EVENT_BUBBLE, map (\<lambda>d. fst (CHECK_LAYER ev d)) devs,
      concat (map (\<lambda>d. snd (CHECK_LAYER ev d)) devs))"
  by (simp add: position_state_changed_listener_def FOREACH_CHECK_LAYER_map)

lemma listener_release:
  "\<not> state ev \<Longrightarrow> position_state_changed_listener (Some ev) devs = (ZMK_EV_EVENT_BUBBLE, devs, [])"
  by (simp add: position_state_changed_listener_def)

lemma CHECK_LAYER_deactivates:
  "layer_active (data dev) \<Longrightarrow> position ev \<notin> set (excluded_positions (config dev)) \<Longrightarrow>
   CHECK_LAYER ev dev =
     (dev\<lparr>data := (data dev)\<lparr>layer_disable_work := None, layer_active := False,
                              active_layer := - 1, last_tapped_time := timestamp ev\<rparr>\<rparr>,
      [Layer_deactivate (active_layer (data dev))])"
  by (simp add: CHECK_LAYER_def Let_def is_position_excluded_iff k_work_cancel_delayable_def)

lemma CHECK_LAYER_keeps:
  "\<not> layer_active (data dev) \<or> position ev \<in> set (excluded_positions (config dev)) \<Longrightarrow>
   CHECK_LAYER ev dev = (dev\<lparr>data := (data dev)\<lparr>last_tapped_time := timestamp ev\<rparr>\<rparr>, [])"
  by (auto simp add: CHECK_LAYER_def Let_def is_position_excluded_iff)

lemma CHECK_LAYER_last_tapped:
  "last_tapped_time (data (fst (CHECK_LAYER ev dev))) = timestamp ev"
  by (simp add: CHECK_LAYER_def Let_def)

lemma CHECK_LAYER_accumulated:
  "accumulated_x (data (fst (CHECK_LAYER ev dev))) = accumulated_x (data dev) \<and>
   accumulated_y (data (fst (CHECK_LAYER ev dev))) = accumulated_y (data dev)"
  by (simp add: CHECK_LAYER_def Let_def)

lemma CHECK_LAYER_invariant:
  "layer_invariant (data dev) \<Longrightarrow> layer_invariant (data (fst (CHECK_LAYER ev dev)))"
  by (simp add: CHECK_LAYER_def Let_def layer_invariant_def word_sle_eq)

lemma handle_event_blocked:
  "\<not> idle_gate_passes (config dev) (data dev) now \<Longrightarrow>
   temp_layer_threshold_handle_event dev event param1 param2 now =
     (ZMK_INPUT_PROC_CONTINUE, dev, [])"
  by (simp add: temp_layer_threshold_handle_event_def idle_gate_passes_def)

lemma handle_event_active:
  "idle_gate_passes (config dev) (data dev) now \<Longrightarrow> layer_active (data dev) \<Longrightarrow>
   (case temp_layer_threshold_handle_event dev event param1 param2 now of (r, dev', calls) \<Rightarrow>
      r = ZMK_INPUT_PROC_CONTINUE \<and> calls = [] \<and> config dev' = config dev \<and>
      layer_active (data dev') \<and> active_layer (data dev') = active_layer (data dev) \<and>
      last_tapped_time (data dev') = last_tapped_time (data dev) \<and>
      layer_disable_work (data dev') = Some (sint now + uint param2) \<and>
      accumulated_x (data dev') + accumulated_y (data dev') =
        accumulated_x (data dev) + accumulated_y (data dev) + movement event)"
  by (auto simp add: temp_layer_threshold_handle_event_def idle_gate_passes_def Let_def movement_def
      k_work_reschedule_def K_MSEC_def INPUT_REL_X_def INPUT_REL_Y_def)

lemma handle_event_below:
  "idle_gate_passes (config dev) (data dev) now \<Longrightarrow> \<not> layer_active (data dev) \<Longrightarrow>
   \<not> threshold (config dev) <=s accumulated_x (data dev) + accumulated_y (data dev) + movement event \<Longrightarrow>
   (case temp_layer_threshold_handle_event dev event param1 param2 now of (r, dev', calls) \<Rightarrow>
      r = ZMK_INPUT_PROC_CONTINUE \<and> calls = [] \<and> config dev' = config dev \<and>
      \<not> layer_active (data dev') \<and> active_layer (data dev') = active_layer (data dev) \<and>
      last_tapped_time (data dev') = last_tapped_time (data dev) \<and>
      layer_disable_work (data dev') = layer_disable_work (data dev) \<and>
      accumulated_x (data dev') + accumulated_y (data dev') =
        accumulated_x (data dev) + accumulated_y (data dev) + movement event)"
  by (auto simp add: temp_layer_threshold_handle_event_def idle_gate_passes_def Let_def movement_def
      k_work_reschedule_def K_MSEC_def INPUT_REL_X_def INPUT_REL_Y_def ac_simps split: if_splits)

lemma handle_event_reach:
  "idle_gate_passes (config dev) (data dev) now \<Longrightarrow> \<not> layer_active (data dev) \<Longrightarrow>
   threshold (config dev) <=s accumulated_x (data dev) + accumulated_y (data dev) + movement event \<Longrightarrow>
   (case temp_layer_threshold_handle_event dev event param1 param2 now of (r, dev', calls) \<Rightarrow>
      r = ZMK_INPUT_PROC_CONTINUE \<and> calls = [Layer_activate (ucast param1)] \<and>
      config dev' = config dev \<and>
      layer_active (data dev') \<and> active_layer (data dev') = ucast param1 \<and>
      last_tapped_time (data dev') = last_tapped_time (data dev) \<and>
      layer_disable_work (data dev') = Some (sint now + uint param2) \<and>
      accumulated_x (data dev') = 0 \<and> accumulated_y (data dev') = 0)"
  by (auto simp add: temp_layer_threshold_handle_event_def idle_gate_passes_def Let_def movement_def
      k_work_reschedule_def K_MSEC_def INPUT_REL_X_def INPUT_REL_Y_def ac_simps split: if_splits)


lemma sint_diff_uptime:
  fixes a b :: "64 word"
  assumes "0 \<le> sint a" and "0 \<le> sint b"
  shows "sint (a - b) = sint a - sint b"
proof -
  have "sint a < 2 ^ 63" and "sint b < 2 ^ 63"
    using sint_lt [of a] sint_lt [of b] by simp_all
  with assms have "- (2 ^ 63) \<le> sint a - sint b" and "sint a - sint b < 2 ^ 63"
    by simp_all
  then have "signed_take_bit 63 (sint a - sint b) = sint a - sint b"
    by (simp add: signed_take_bit_int_eq_self)
  then show ?thesis
    by (simp add: sint_word_ariths)
qed

lemma sint_scast_idle:
  "sint (scast (r :: 32 word) :: 64 word) = sint r"
  by (simp add: sint_up_scast is_up)

lemma idle_gate_passes_int:
  assumes "0 \<le> sint now" and "0 \<le> sint (last_tapped_time st)"
  shows "idle_gate_passes cfg st now \<longleftrightarrow>
     \<not> (0 < sint (require_prior_idle_ms cfg) \<and>
        sint now - sint (last_tapped_time st) < sint (require_prior_idle_ms cfg))"
  using assms
  by (simp add: idle_gate_passes_def word_sless_alt sint_diff_uptime sint_scast_idle)

lemma deliver_key_not_qualifying:
  assumes "\<not> qualifying_press dev ev"
  shows "snd (deliver dev (Key ev)) = [] \<and>
         config (fst (deliver dev (Key ev))) = config dev \<and>
         layer_active (data (fst (deliver dev (Key ev)))) = layer_active (data dev) \<and>
         accumulated_x (data (fst (deliver dev (Key ev)))) = accumulated_x (data dev) \<and>
         accumulated_y (data (fst (deliver dev (Key ev)))) = accumulated_y (data dev)"
proof (cases "state ev")
  case True
  then have "\<not> layer_active (data dev) \<or> position ev \<in> set (excluded_positions (config dev))"
    using assms by (auto simp add: qualifying_press_def)
  from CHECK_LAYER_keeps [OF this] True show ?thesis
    by (simp add: listener_press)
next
  case False
  then show ?thesis
    by (simp add: listener_release)
qed

lemma deliver_all_active:
  assumes "layer_active (data dev)" and "undisturbed dev ds" and "j < length ds"
  shows "snd (deliver_all dev ds ! j) = []"
  using assms
proof (induction ds arbitrary: dev j)
  case Nil
  then show ?case by simp
next
  case (Cons d ds)
  obtain dev' calls where step: "deliver dev d = (dev', calls)"
    by (cases "deliver dev d")
  have props: "calls = [] \<and> layer_active (data dev') \<and> undisturbed dev' ds"
  proof (cases d)
    case (Motion m)
    then have gate: "idle_gate_passes (config dev) (data dev) (m_now m)"
      and rest: "undisturbed (fst (deliver dev (Motion m))) ds"
      using Cons.prems(2) by simp_all
    from handle_event_active [OF gate Cons.prems(1),
      where event = "m_event m" and ?param1.0 = "m_param1 m" and ?param2.0 = "m_param2 m"]
    show ?thesis using step rest Motion by (auto split: prod.splits)
  next
    case (Key ev)
    then have quiet: "\<not> qualifying_press dev ev"
      and rest: "undisturbed (fst (deliver dev (Key ev))) ds"
      using Cons.prems(2) by simp_all
    from deliver_key_not_qualifying [OF quiet] show ?thesis
      using step rest Key Cons.prems(1) by simp
  qed
  show ?case
  proof (cases j)
    case 0
    then show ?thesis using step props by simp
  next
    case (Suc i)
    then have "snd (deliver_all dev' ds ! i) = []"
      using Cons.IH [of dev' i] props Cons.prems(3) by simp
    then show ?thesis using step Suc by simp
  qed
qed

lemma total_after_Cons:
  "accumulated_x (data dev') + accumulated_y (data dev') =
     accumulated_x (data dev) + accumulated_y (data dev) + moved d \<Longrightarrow>
   total_after dev (d # ds) = total_after dev' ds"
  by (simp add: total_after_def ac_simps)

lemmas scenario_defs =
  scenario_moved_def scenario_active_def scenario_device_def scenario_config_def TEMP_LAYER_THRESHOLD_INST_def
  temp_layer_threshold_init_def zero_state_def rel_x_def rel_y_def key_press_def key_release_def
  after_key_event_def scenario_deliveries_def

lemmas code_defs =
  temp_layer_threshold_handle_event_def Let_def k_work_reschedule_def K_MSEC_def
  INPUT_EV_REL_def INPUT_REL_X_def INPUT_REL_Y_def layer_disable_callback_def
  accumulation_reset_callback_def position_state_changed_listener_def CHECK_LAYER_def
  is_position_excluded_def k_work_cancel_delayable_def


lemmas eval_defs = scenario_defs code_defs idle_gate_passes_def movement_def total_after_def
  qualifying_press_def
  layer_invariant_def word_sless_alt word_sle_eq

lemma sle_zero_int8:
  "0 <=s (w :: 8 word) \<longleftrightarrow> unat w < 128"
proof -
  define k where "k = uint w"
  have range: "0 \<le> k" "k < 256"
    using uint_lt2p [of w] by (simp_all add: k_def)
  have "sint w = signed_take_bit 7 k"
    by (simp add: sint_uint k_def)
  then have "0 \<le> sint w \<longleftrightarrow> \<not> bit k 7"
    by simp
  also have "\<dots> \<longleftrightarrow> even (k div 128)"
    by (simp add: bit_iff_odd)
  also have "\<dots> \<longleftrightarrow> k < 128"
    using range by presburger
  finally have sign: "0 \<le> sint w \<longleftrightarrow> k < 128" .
  have "unat w = nat k"
    by (simp add: k_def)
  then have "unat w < 128 \<longleftrightarrow> k < 128"
    using range by linarith
  with sign show ?thesis
    by (simp add: word_sle_eq)
qed

lemma handle_event_invariant:
  assumes "layer_invariant (data dev)" and "unat (ucast param1 :: 8 word) < 128"
  shows "layer_invariant
           (data (fst (snd (temp_layer_threshold_handle_event dev event param1 param2 now))))"
proof -
  have "0 <=s (ucast param1 :: 8 word)"
    using assms(2) by (simp only: sle_zero_int8)
  then show ?thesis
    using assms(1)
    by (auto simp add: temp_layer_threshold_handle_event_def Let_def layer_invariant_def)
qed

subsection \<open>The disable timer callback\<close>

text \<open>
  Claim C7. The disable-timer callback is idempotent: run twice in a row, the second run
  changes nothing and calls the keymap not at all, so that the two runs deactivate the layer
  at most once; run on a state where \<^verbatim>\<open>layer_active\<close> is false, it leaves the state
  as it is and makes no call.
\<close>

theorem C7_disable_callback_idempotent:
  "fst (layer_disable_callback (fst (layer_disable_callback st))) = fst (layer_disable_callback st) \<and>
   snd (layer_disable_callback (fst (layer_disable_callback st))) = [] \<and>
   length (snd (layer_disable_callback st) @
           snd (layer_disable_callback (fst (layer_disable_callback st)))) \<le> 1 \<and>
   (\<not> layer_active st \<longrightarrow> layer_disable_callback st = (st, []))"
  by (simp add: layer_disable_callback_def)

theorem C7_disable_callback_idempotent_witness:
  "layer_active (data (scenario_active 0 [])) \<and>
   layer_disable_callback (data (scenario_active 0 [])) =
     ((data (scenario_active 0 []))\<lparr>layer_active := False, active_layer := - 1\<rparr>,
      [Layer_deactivate 1]) \<and>
   \<not> layer_active (fst (layer_disable_callback (data (scenario_active 0 [])))) \<and>
   layer_disable_callback (fst (layer_disable_callback (data (scenario_active 0 [])))) =
     (fst (layer_disable_callback (data (scenario_active 0 []))), [])"
  using C7_disable_callback_idempotent [of "fst (layer_disable_callback (data (scenario_active 0 [])))"]
  by (simp add: eval_defs)

subsection \<open>The accumulation reset callback\<close>

text \<open>
  Claim C8. The accumulation-reset callback sets both accumulators to zero in every state
  and touches nothing else. Motion accumulated before it no longer counts: the next motion
  event that passes the idle gate on an inactive layer activates it exactly when its own
  movement reaches the threshold, whatever had been accumulated before the reset.
\<close>

theorem C8_reset_forgets_accumulated_motion:
  "accumulation_reset_callback st = st\<lparr>accumulated_x := 0, accumulated_y := 0\<rparr> \<and>
   accumulated_x (accumulation_reset_callback st) = 0 \<and>
   accumulated_y (accumulation_reset_callback st) = 0 \<and>
   (\<not> layer_active st \<and> idle_gate_passes (config dev) st now \<longrightarrow>
      snd (snd (temp_layer_threshold_handle_event
                  (dev\<lparr>data := accumulation_reset_callback st\<rparr>) event param1 param2 now)) =
        (if threshold (config dev) <=s movement event
         then [Layer_activate (ucast param1)] else []))"
proof -
  have "snd (snd (temp_layer_threshold_handle_event
                  (dev\<lparr>data := accumulation_reset_callback st\<rparr>) event param1 param2 now)) =
        (if threshold (config dev) <=s movement event
         then [Layer_activate (ucast param1)] else [])"
    if inactive: "\<not> layer_active st" and gate: "idle_gate_passes (config dev) st now"
  proof -
    let ?dev = "dev\<lparr>data := accumulation_reset_callback st\<rparr>"
    have g: "idle_gate_passes (config ?dev) (data ?dev) now"
      using gate by (simp add: idle_gate_passes_def accumulation_reset_callback_def)
    have i: "\<not> layer_active (data ?dev)"
      using inactive by (simp add: accumulation_reset_callback_def)
    have total: "accumulated_x (data ?dev) + accumulated_y (data ?dev) + movement event =
        movement event"
      by (simp add: accumulation_reset_callback_def)
    show ?thesis
    proof (cases "threshold (config dev) <=s movement event")
      case True
      then have "threshold (config ?dev) <=s
          accumulated_x (data ?dev) + accumulated_y (data ?dev) + movement event"
        using total by simp
      from handle_event_reach [OF g i this, where ?param1.0 = param1 and ?param2.0 = param2]
      show ?thesis using True by (auto split: prod.splits)
    next
      case False
      then have "\<not> threshold (config ?dev) <=s
          accumulated_x (data ?dev) + accumulated_y (data ?dev) + movement event"
        using total by simp
      from handle_event_below [OF g i this, where ?param1.0 = param1 and ?param2.0 = param2]
      show ?thesis using False by (auto split: prod.splits)
    qed
  qed
  then show ?thesis
    by (simp add: accumulation_reset_callback_def)
qed

theorem C8_reset_forgets_accumulated_motion_witness:
  "accumulated_x (data (fst (snd (temp_layer_threshold_handle_event
       (scenario_device 0 []) (rel_x 30) 1 200 0)))) = 30 \<and>
   \<not> layer_active (data (fst (snd (temp_layer_threshold_handle_event
       (scenario_device 0 []) (rel_x 30) 1 200 0)))) \<and>
   snd (snd (temp_layer_threshold_handle_event
     ((scenario_device 0 [])\<lparr>data := accumulation_reset_callback
        (data (fst (snd (temp_layer_threshold_handle_event
           (scenario_device 0 []) (rel_x 30) 1 200 0))))\<rparr>)
     (rel_x 30) 1 200 150)) = []"
  using C8_reset_forgets_accumulated_motion
    [where st = "data (fst (snd (temp_layer_threshold_handle_event
           (scenario_device 0 []) (rel_x 30) 1 200 0)))"
       and dev = "scenario_device 0 []" and now = 150 and event = "rel_x 30"
       and ?param1.0 = 1 and ?param2.0 = 200]
  by (simp add: eval_defs)

subsection \<open>The key position listener\<close>

text \<open>
  Claim C2 says that every key-position event, press or release, records its timestamp.
  The listener returns at once on a release (\<^verbatim>\<open>!ev->state\<close>), before any instance is
  looked at: a release at time 5 on a freshly booted device leaves
  \<^verbatim>\<open>last_tapped_time\<close> at 0.
\<close>

theorem C2_release_counterexample:
  "last_tapped_time (data (after_key_event (key_release 3 5) (scenario_device 0 []))) \<noteq>
     timestamp (key_release 3 5)"
  by (simp add: eval_defs)

text \<open>
  Claim C2, amended. For every key press, the listener records the event's timestamp into
  \<^verbatim>\<open>last_tapped_time\<close> of every instance; for a key release it returns with every
  instance unchanged and no keymap call.
\<close>

theorem C2_press_records_timestamp:
  "(state ev \<longrightarrow>
      length (fst (snd (position_state_changed_listener (Some ev) devs))) = length devs \<and>
      (\<forall>d \<in> set (fst (snd (position_state_changed_listener (Some ev) devs))).
         last_tapped_time (data d) = timestamp ev)) \<and>
   (\<not> state ev \<longrightarrow>
      position_state_changed_listener (Some ev) devs = (ZMK_EV_EVENT_BUBBLE, devs, []))"
  by (auto simp add: listener_press listener_release CHECK_LAYER_last_tapped)

theorem C2_press_records_timestamp_witness:
  "last_tapped_time (data (after_key_event (key_press 3 5) (scenario_device 0 []))) = 5 \<and>
   position_state_changed_listener (Some (key_release 3 9))
     [after_key_event (key_press 3 5) (scenario_device 0 [])] =
     (ZMK_EV_EVENT_BUBBLE, [after_key_event (key_press 3 5) (scenario_device 0 [])], [])"
  using C2_press_records_timestamp
      [where ev = "key_press 3 5" and devs = "[scenario_device 0 []]"]
    C2_press_records_timestamp
      [where ev = "key_release 3 9" and devs = "[after_key_event (key_press 3 5) (scenario_device 0 [])]"]
  by (simp add: eval_defs)

text \<open>
  Claim C4. When an instance holds its layer active, a key press on a position that is not
  among its excluded positions cancels the pending disable work, calls
  \<^verbatim>\<open>zmk_keymap_layer_deactivate\<close> for the stored layer, sets \<^verbatim>\<open>layer_active\<close> to
  false and \<^verbatim>\<open>active_layer\<close> to -1 (and records the timestamp). For a single instance
  that call is the only one made.
\<close>

theorem C4_press_on_other_key_deactivates:
  assumes "i < length devs"
    and "layer_active (data (devs ! i))"
    and "state ev"
    and "position ev \<notin> set (excluded_positions (config (devs ! i)))"
  shows "fst (snd (position_state_changed_listener (Some ev) devs)) ! i =
           (devs ! i)\<lparr>data := (data (devs ! i))
              \<lparr>layer_disable_work := None, layer_active := False, active_layer := - 1,
               last_tapped_time := timestamp ev\<rparr>\<rparr> \<and>
         Layer_deactivate (active_layer (data (devs ! i))) \<in>
           set (snd (snd (position_state_changed_listener (Some ev) devs))) \<and>
         position_state_changed_listener (Some ev) [devs ! i] =
           (ZMK_EV_EVENT_BUBBLE,
            [(devs ! i)\<lparr>data := (data (devs ! i))
               \<lparr>layer_disable_work := None, layer_active := False, active_layer := - 1,
                last_tapped_time := timestamp ev\<rparr>\<rparr>],
            [Layer_deactivate (active_layer (data (devs ! i)))])"
proof -
  note step = CHECK_LAYER_deactivates [OF assms(2) assms(4)]
  have "devs ! i \<in> set devs"
    using assms(1) by simp
  then have "Layer_deactivate (active_layer (data (devs ! i))) \<in>
      set (concat (map (\<lambda>d. snd (CHECK_LAYER ev d)) devs))"
    using step by force
  then show ?thesis
    using assms(1) step by (simp add: listener_press [OF assms(3)])
qed

theorem C4_press_on_other_key_deactivates_witness:
  "layer_active (data (scenario_active 0 [5])) \<and>
   layer_disable_work (data (scenario_active 0 [5])) = Some 200 \<and>
   position_state_changed_listener (Some (key_press 3 40)) [scenario_active 0 [5]] =
     (ZMK_EV_EVENT_BUBBLE,
      [(scenario_active 0 [5])\<lparr>data := (data (scenario_active 0 [5]))
         \<lparr>layer_disable_work := None, layer_active := False, active_layer := - 1,
          last_tapped_time := 40\<rparr>\<rparr>],
      [Layer_deactivate 1])"
  using C4_press_on_other_key_deactivates
    [where i = 0 and devs = "[scenario_active 0 [5]]" and ev = "key_press 3 40"]
  by (simp add: eval_defs)

text \<open>
  Claim C9. When an instance holds its layer active, a key press on one of its excluded
  positions changes only \<^verbatim>\<open>last_tapped_time\<close>: \<^verbatim>\<open>layer_active\<close>,
  \<^verbatim>\<open>active_layer\<close> and the pending disable work stay as they are, and the instance
  makes no keymap call.
\<close>

theorem C9_press_on_excluded_key_keeps_layer:
  assumes "i < length devs"
    and "layer_active (data (devs ! i))"
    and "state ev"
    and "position ev \<in> set (excluded_positions (config (devs ! i)))"
  shows "fst (snd (position_state_changed_listener (Some ev) devs)) ! i =
           (devs ! i)\<lparr>data := (data (devs ! i))\<lparr>last_tapped_time := timestamp ev\<rparr>\<rparr> \<and>
         position_state_changed_listener (Some ev) [devs ! i] =
           (ZMK_EV_EVENT_BUBBLE,
            [(devs ! i)\<lparr>data := (data (devs ! i))\<lparr>last_tapped_time := timestamp ev\<rparr>\<rparr>],
            [])"
  using assms(1) CHECK_LAYER_keeps [of "devs ! i" ev] assms(4)
  by (simp add: listener_press [OF assms(3)])

theorem C9_press_on_excluded_key_keeps_layer_witness:
  "layer_active (data (scenario_active 0 [5])) \<and>
   position_state_changed_listener (Some (key_press 5 40)) [scenario_active 0 [5]] =
     (ZMK_EV_EVENT_BUBBLE,
      [(scenario_active 0 [5])\<lparr>data := (data (scenario_active 0 [5]))
         \<lparr>last_tapped_time := 40\<rparr>\<rparr>],
      []) \<and>
   layer_active (data (after_key_event (key_press 5 40) (scenario_active 0 [5]))) \<and>
   active_layer (data (after_key_event (key_press 5 40) (scenario_active 0 [5]))) = 1 \<and>
   layer_disable_work (data (after_key_event (key_press 5 40) (scenario_active 0 [5]))) =
     Some 200"
  using C9_press_on_excluded_key_keeps_layer
    [where i = 0 and devs = "[scenario_active 0 [5]]" and ev = "key_press 5 40"]
  by (simp add: eval_defs)

subsection \<open>The input processor on one event\<close>

text \<open>
  Claim C5. When the layer is active, a motion event that passes the idle gate reschedules
  the disable work to \<^verbatim>\<open>timeout_ms\<close> after the uptime of the event, replacing what
  was pending (an event at 150 with a timeout of 200 moves it from 200 to 350), and makes no
  keymap call: the layer stays active with the same layer id.
\<close>

theorem C5_motion_while_active_renews_timeout:
  assumes "layer_active (data dev)"
    and "idle_gate_passes (config dev) (data dev) now"
  shows "fst (temp_layer_threshold_handle_event dev event param1 param2 now) =
           ZMK_INPUT_PROC_CONTINUE \<and>
         snd (snd (temp_layer_threshold_handle_event dev event param1 param2 now)) = [] \<and>
         layer_disable_work
           (data (fst (snd (temp_layer_threshold_handle_event dev event param1 param2 now)))) =
           Some (sint now + uint param2) \<and>
         layer_active
           (data (fst (snd (temp_layer_threshold_handle_event dev event param1 param2 now)))) \<and>
         active_layer
           (data (fst (snd (temp_layer_threshold_handle_event dev event param1 param2 now)))) =
           active_layer (data dev)"
  using handle_event_active [OF assms(2) assms(1),
      where event = event and ?param1.0 = param1 and ?param2.0 = param2]
  by (auto split: prod.splits)

theorem C5_motion_while_active_renews_timeout_witness:
  "layer_active (data (scenario_active 0 [])) \<and>
   layer_disable_work (data (scenario_active 0 [])) = Some 200 \<and>
   snd (snd (temp_layer_threshold_handle_event (scenario_active 0 []) (rel_y 70) 2 200 150)) = [] \<and>
   layer_disable_work
     (data (fst (snd (temp_layer_threshold_handle_event
        (scenario_active 0 []) (rel_y 70) 2 200 150)))) = Some 350 \<and>
   active_layer
     (data (fst (snd (temp_layer_threshold_handle_event
        (scenario_active 0 []) (rel_y 70) 2 200 150)))) = 1"
  using C5_motion_while_active_renews_timeout
    [where dev = "scenario_active 0 []" and now = 150 and event = "rel_y 70"
       and ?param1.0 = 2 and ?param2.0 = 200]
  by (simp add: eval_defs)

text \<open>
  Claim C6. With \<^verbatim>\<open>require_prior_idle_ms > 0\<close>, a motion event that arrives less than
  that many milliseconds after \<^verbatim>\<open>last_tapped_time\<close> returns
  \<^verbatim>\<open>ZMK_INPUT_PROC_CONTINUE\<close> with the device unchanged (no accumulation, no timer
  rescheduled) and no keymap call. Uptimes are not negative.
\<close>

theorem C6_idle_gate_ignores_early_motion:
  assumes "0 < sint (require_prior_idle_ms (config dev))"
    and "0 \<le> sint now" and "0 \<le> sint (last_tapped_time (data dev))"
    and "sint now - sint (last_tapped_time (data dev)) < sint (require_prior_idle_ms (config dev))"
  shows "temp_layer_threshold_handle_event dev event param1 param2 now =
           (ZMK_INPUT_PROC_CONTINUE, dev, [])"
proof -
  have "\<not> idle_gate_passes (config dev) (data dev) now"
    using assms by (simp add: idle_gate_passes_int)
  then show ?thesis
    by (rule handle_event_blocked)
qed

theorem C6_idle_gate_ignores_early_motion_witness:
  "require_prior_idle_ms (config (after_key_event (key_press 3 1000) (scenario_device 100 []))) = 100 \<and>
   last_tapped_time (data (after_key_event (key_press 3 1000) (scenario_device 100 []))) = 1000 \<and>
   temp_layer_threshold_handle_event
     (after_key_event (key_press 3 1000) (scenario_device 100 [])) (rel_x 60) 1 200 1099 =
     (ZMK_INPUT_PROC_CONTINUE, after_key_event (key_press 3 1000) (scenario_device 100 []), []) \<and>
   snd (snd (temp_layer_threshold_handle_event
     (after_key_event (key_press 3 1000) (scenario_device 100 [])) (rel_x 60) 1 200 1100)) =
     [Layer_activate 1]"
  using C6_idle_gate_ignores_early_motion
    [where dev = "after_key_event (key_press 3 1000) (scenario_device 100 [])" and now = 1099
       and event = "rel_x 60" and ?param1.0 = 1 and ?param2.0 = 200]
  by (simp add: eval_defs)

subsection \<open>The invariant of the layer state\<close>

text \<open>
  Claim C3 says that every operation, the processor with any layer id included, preserves
  the invariant. \<^verbatim>\<open>active_layer\<close> is an \<^verbatim>\<open>int8_t\<close> and the layer id a
  \<^verbatim>\<open>uint8_t\<close>: activating layer 128 stores -128, with \<^verbatim>\<open>layer_active\<close> true.
\<close>

theorem C3_layer_id_128_counterexample:
  "layer_invariant (data (scenario_device 0 [])) \<and>
   \<not> layer_invariant
       (data (fst (snd (temp_layer_threshold_handle_event
          (scenario_device 0 []) (rel_x 60) 128 200 10))))"
  by (simp add: eval_defs)

text \<open>
  Claim C3, amended. The invariant holds after \<^verbatim>\<open>temp_layer_threshold_init\<close> and is
  preserved by the processor for every layer id below 128, by the key position listener on
  every instance, and by both timer callbacks.
\<close>

theorem C3_layer_invariant_preserved:
  "layer_invariant (data (snd (temp_layer_threshold_init dev))) \<and>
   (layer_invariant (data dev) \<and> unat (ucast param1 :: 8 word) < 128 \<longrightarrow>
      layer_invariant
        (data (fst (snd (temp_layer_threshold_handle_event dev event param1 param2 now))))) \<and>
   ((\<forall>d \<in> set devs. layer_invariant (data d)) \<longrightarrow>
      (\<forall>d \<in> set (fst (snd (position_state_changed_listener eh devs))).
         layer_invariant (data d))) \<and>
   (layer_invariant st \<longrightarrow> layer_invariant (fst (layer_disable_callback st))) \<and>
   (layer_invariant st \<longrightarrow> layer_invariant (accumulation_reset_callback st))"
proof -
  have init: "layer_invariant (data (snd (temp_layer_threshold_init dev)))"
    by (simp add: temp_layer_threshold_init_def layer_invariant_def word_sle_eq)
  have key: "\<forall>d \<in> set (fst (snd (position_state_changed_listener eh devs))).
      layer_invariant (data d)"
    if "\<forall>d \<in> set devs. layer_invariant (data d)"
  proof (cases eh)
    case None
    then show ?thesis using that by (simp add: position_state_changed_listener_def)
  next
    case (Some ev)
    show ?thesis
    proof (cases "state ev")
      case True
      then show ?thesis
        using that Some by (auto simp add: listener_press CHECK_LAYER_invariant)
    next
      case False
      then show ?thesis
        using that Some by (simp add: listener_release)
    qed
  qed
  have disable: "layer_invariant (fst (layer_disable_callback st))" if "layer_invariant st"
    using that by (simp add: layer_disable_callback_def layer_invariant_def word_sle_eq)
  have reset: "layer_invariant (accumulation_reset_callback st)" if "layer_invariant st"
    using that by (simp add: accumulation_reset_callback_def layer_invariant_def)
  show ?thesis
    using init key disable reset handle_event_invariant by blast
qed

theorem C3_layer_invariant_preserved_witness:
  "layer_invariant (data (scenario_device 0 [])) \<and>
   unat (ucast (1 :: 32 word) :: 8 word) < 128 \<and>
   layer_invariant (data (scenario_active 0 [])) \<and>
   layer_active (data (scenario_active 0 [])) \<and>
   layer_invariant (data (after_key_event (key_press 3 40) (scenario_active 0 []))) \<and>
   \<not> layer_active (data (after_key_event (key_press 3 40) (scenario_active 0 []))) \<and>
   layer_invariant (fst (layer_disable_callback (data (scenario_active 0 [])))) \<and>
   layer_invariant (accumulation_reset_callback (data (scenario_active 0 [])))"
  using C3_layer_invariant_preserved
    [where dev = "scenario_device 0 []" and ?param1.0 = 1 and event = "rel_x 60"
       and ?param2.0 = 200 and now = 0 and devs = "[scenario_active 0 []]"
       and eh = "Some (key_press 3 40)" and st = "data (scenario_active 0 [])"]
  by (simp add: eval_defs)

subsection \<open>Sequences of motion events\<close>

text \<open>
  Claim C1. Take a device whose layer is inactive and a sequence of motion events, with or
  without key events between them, in which every motion event passes the idle gate and no
  key event is a qualifying press. If the sum \<^verbatim>\<open>accumulated_x + accumulated_y\<close> meets
  the threshold at the motion event \<open>k\<close> and at no motion event before it, then the only
  keymap call of the whole sequence is the activation of the given layer at event \<open>k\<close>;
  after that event \<^verbatim>\<open>layer_active\<close> is true, \<^verbatim>\<open>active_layer\<close> is the given layer id,
  both accumulators are zero and the disable work is due \<^verbatim>\<open>timeout_ms\<close> after the event.
\<close>

theorem C1_first_threshold_crossing_activates_once:
  assumes "\<not> layer_active (data dev)"
    and "undisturbed dev ds"
    and "k < length ds"
    and "ds ! k = Motion m"
    and "threshold (config dev) <=s total_after dev (take (Suc k) ds)"
    and "\<forall>j<k. \<forall>m'. ds ! j = Motion m' \<longrightarrow>
           \<not> threshold (config dev) <=s total_after dev (take (Suc j) ds)"
  shows "(\<forall>j<length ds. snd (deliver_all dev ds ! j) =
            (if j = k then [Layer_activate (ucast (m_param1 m))] else [])) \<and>
         layer_active (data (fst (deliver_all dev ds ! k))) \<and>
         active_layer (data (fst (deliver_all dev ds ! k))) = ucast (m_param1 m) \<and>
         accumulated_x (data (fst (deliver_all dev ds ! k))) = 0 \<and>
         accumulated_y (data (fst (deliver_all dev ds ! k))) = 0 \<and>
         layer_disable_work (data (fst (deliver_all dev ds ! k))) =
           Some (sint (m_now m) + uint (m_param2 m))"
  using assms
proof (induction ds arbitrary: dev k)
  case Nil
  then show ?case by simp
next
  case (Cons d ds)
  obtain dev' calls where step: "deliver dev d = (dev', calls)"
    by (cases "deliver dev d")
  show ?case
  proof (cases k)
    case 0
    then have d: "d = Motion m"
      using Cons.prems(4) by simp
    have gate: "idle_gate_passes (config dev) (data dev) (m_now m)"
      and rest: "undisturbed (fst (deliver dev (Motion m))) ds"
      using Cons.prems(2) d by simp_all
    have reach: "threshold (config dev) <=s
        accumulated_x (data dev) + accumulated_y (data dev) + movement (m_event m)"
      using Cons.prems(5) 0 d by (simp add: total_after_def)
    from handle_event_reach [OF gate Cons.prems(1) reach,
      where ?param1.0 = "m_param1 m" and ?param2.0 = "m_param2 m"] step d
    have props: "calls = [Layer_activate (ucast (m_param1 m))]"
      "layer_active (data dev')" "active_layer (data dev') = ucast (m_param1 m)"
      "layer_disable_work (data dev') = Some (sint (m_now m) + uint (m_param2 m))"
      "accumulated_x (data dev') = 0" "accumulated_y (data dev') = 0"
      by (auto split: prod.splits)
    have later: "undisturbed dev' ds"
      using rest step d by simp
    have calls_at: "snd (deliver_all dev (d # ds) ! j) =
        (if j = k then [Layer_activate (ucast (m_param1 m))] else [])"
      if "j < length (d # ds)" for j
    proof (cases j)
      case 0
      then show ?thesis using step props \<open>k = 0\<close> by simp
    next
      case (Suc i)
      then have "snd (deliver_all dev' ds ! i) = []"
        using deliver_all_active [OF props(2) later, of i] that by simp
      then show ?thesis using step Suc \<open>k = 0\<close> by simp
    qed
    show ?thesis using calls_at step props 0 by simp
  next
    case (Suc k')
    have props: "calls = [] \<and> config dev' = config dev \<and> \<not> layer_active (data dev') \<and>
        undisturbed dev' ds \<and>
        accumulated_x (data dev') + accumulated_y (data dev') =
          accumulated_x (data dev) + accumulated_y (data dev) + moved d"
    proof (cases d)
      case (Motion m0)
      then have gate: "idle_gate_passes (config dev) (data dev) (m_now m0)"
        and rest: "undisturbed (fst (deliver dev (Motion m0))) ds"
        using Cons.prems(2) by simp_all
      have "\<not> threshold (config dev) <=s total_after dev (take (Suc 0) (d # ds))"
        using Cons.prems(6) Suc Motion by auto
      then have below: "\<not> threshold (config dev) <=s
          accumulated_x (data dev) + accumulated_y (data dev) + movement (m_event m0)"
        using Motion by (simp add: total_after_def)
      from handle_event_below [OF gate Cons.prems(1) below,
        where ?param1.0 = "m_param1 m0" and ?param2.0 = "m_param2 m0"]
      show ?thesis using step rest Motion by (auto split: prod.splits)
    next
      case (Key ev)
      then have quiet: "\<not> qualifying_press dev ev"
        and rest: "undisturbed (fst (deliver dev (Key ev))) ds"
        using Cons.prems(2) by simp_all
      from deliver_key_not_qualifying [OF quiet] show ?thesis
        using step rest Key Cons.prems(1) by simp
    qed
    note shift = total_after_Cons [of dev' dev d]
    have k': "k' < length ds" and at_k': "ds ! k' = Motion m"
      using Cons.prems(3,4) Suc by simp_all
    have reach': "threshold (config dev') <=s total_after dev' (take (Suc k') ds)"
      using Cons.prems(5) Suc props shift [of "take (Suc k') ds"] by simp
    have first': "\<forall>j<k'. \<forall>m'. ds ! j = Motion m' \<longrightarrow>
        \<not> threshold (config dev') <=s total_after dev' (take (Suc j) ds)"
    proof (intro allI impI)
      fix j m' assume "j < k'" and "ds ! j = Motion m'"
      then have "\<not> threshold (config dev) <=s total_after dev (take (Suc (Suc j)) (d # ds))"
        using Cons.prems(6) Suc by auto
      then show "\<not> threshold (config dev') <=s total_after dev' (take (Suc j) ds)"
        using props shift [of "take (Suc j) ds"] by simp
    qed
    have inactive': "\<not> layer_active (data dev')" and later: "undisturbed dev' ds"
      using props by simp_all
    note IH = Cons.IH [OF inactive' later k' at_k' reach' first']
    have calls_at: "snd (deliver_all dev (d # ds) ! j) =
        (if j = k then [Layer_activate (ucast (m_param1 m))] else [])"
      if "j < length (d # ds)" for j
    proof (cases j)
      case 0
      then show ?thesis using step props Suc by simp
    next
      case (Suc i)
      then show ?thesis using IH that step \<open>k = Suc k'\<close> by simp
    qed
    show ?thesis using calls_at IH step Suc by simp
  qed
qed

theorem C1_first_threshold_crossing_activates_once_witness:
  "map snd (deliver_all (scenario_device 5 [5]) scenario_deliveries) =
     [[], [], [Layer_activate 1], [], [], []] \<and>
   data (fst (deliver_all (scenario_device 5 [5]) scenario_deliveries ! 2)) =
     \<lparr>accumulated_x = 0, accumulated_y = 0, accumulation_start_time = 0,
      active_layer = 1, last_tapped_time = 15, layer_active = True,
      layer_disable_work = Some 220, accumulation_reset_work = Some 120\<rparr>"
proof -
  have quiet: "undisturbed (scenario_device 5 [5]) scenario_deliveries"
    by (simp add: eval_defs)
  have at: "scenario_deliveries ! 2 =
      Motion \<lparr>m_event = rel_y (- 25), m_param1 = 1, m_param2 = 200, m_now = 20\<rparr>"
    by (simp add: scenario_deliveries_def)
  have reach: "threshold (config (scenario_device 5 [5])) <=s
      total_after (scenario_device 5 [5]) (take (Suc 2) scenario_deliveries)"
    by (simp add: eval_defs)
  have first: "\<forall>j<2. \<forall>m'. scenario_deliveries ! j = Motion m' \<longrightarrow>
      \<not> threshold (config (scenario_device 5 [5])) <=s
        total_after (scenario_device 5 [5]) (take (Suc j) scenario_deliveries)"
    by (simp add: eval_defs less_Suc_eq numeral_2_eq_2)
  have "\<not> layer_active (data (scenario_device 5 [5]))"
    and "2 < length scenario_deliveries"
    by (simp_all add: eval_defs)
  from C1_first_threshold_crossing_activates_once [OF this(1) quiet this(2) at reach first]
  show ?thesis
    by (simp add: eval_defs)
qed

subsection \<open>Accumulated motion across a deactivation\<close>

text \<open>
  Claim C10. Deactivating the layer, by the disable-timer callback or by a key press,
  leaves \<^verbatim>\<open>accumulated_x\<close> and \<^verbatim>\<open>accumulated_y\<close> as they are, and motion handled
  while the layer is active is added to them. So what was accumulated while the layer was
  active is still there after the deactivation: the first motion event after it that passes
  the idle gate activates the layer again as soon as the stored total plus its own movement
  meets the threshold.
\<close>

theorem C10_deactivation_keeps_accumulators:
  "accumulated_x (fst (layer_disable_callback (data dev))) = accumulated_x (data dev) \<and>
   accumulated_y (fst (layer_disable_callback (data dev))) = accumulated_y (data dev) \<and>
   accumulated_x (data (after_key_event ev dev)) = accumulated_x (data dev) \<and>
   accumulated_y (data (after_key_event ev dev)) = accumulated_y (data dev) \<and>
   (layer_active (data dev) \<and> idle_gate_passes (config dev) (data dev) now \<longrightarrow>
      accumulated_x
        (data (fst (snd (temp_layer_threshold_handle_event dev event param1 param2 now)))) +
      accumulated_y
        (data (fst (snd (temp_layer_threshold_handle_event dev event param1 param2 now)))) =
      accumulated_x (data dev) + accumulated_y (data dev) + movement event) \<and>
   (layer_active (data dev) \<and> 0 <=s active_layer (data dev) \<and>
    idle_gate_passes (config dev) (data dev) now \<and>
    threshold (config dev) <=s accumulated_x (data dev) + accumulated_y (data dev) + movement event
    \<longrightarrow>
      \<not> layer_active (fst (layer_disable_callback (data dev))) \<and>
      snd (snd (temp_layer_threshold_handle_event
                  (dev\<lparr>data := fst (layer_disable_callback (data dev))\<rparr>)
                  event param1 param2 now)) = [Layer_activate (ucast param1)]) \<and>
   (layer_active (data dev) \<and> state ev \<and>
    position ev \<notin> set (excluded_positions (config dev)) \<and>
    idle_gate_passes (config dev) (data (after_key_event ev dev)) now \<and>
    threshold (config dev) <=s accumulated_x (data dev) + accumulated_y (data dev) + movement event
    \<longrightarrow>
      \<not> layer_active (data (after_key_event ev dev)) \<and>
      snd (snd (temp_layer_threshold_handle_event (after_key_event ev dev)
                  event param1 param2 now)) = [Layer_activate (ucast param1)])"
proof -
  have frame_timer:
    "accumulated_x (fst (layer_disable_callback (data dev))) = accumulated_x (data dev)"
    "accumulated_y (fst (layer_disable_callback (data dev))) = accumulated_y (data dev)"
    by (simp_all add: layer_disable_callback_def)
  have key_dev: "after_key_event ev dev =
      (if state ev then fst (CHECK_LAYER ev dev) else dev)"
    by (simp add: after_key_event_def position_state_changed_listener_def split: prod.splits)
  have frame_key:
    "accumulated_x (data (after_key_event ev dev)) = accumulated_x (data dev)"
    "accumulated_y (data (after_key_event ev dev)) = accumulated_y (data dev)"
    by (simp_all add: key_dev CHECK_LAYER_accumulated)
  have while_active:
    "accumulated_x
        (data (fst (snd (temp_layer_threshold_handle_event dev event param1 param2 now)))) +
      accumulated_y
        (data (fst (snd (temp_layer_threshold_handle_event dev event param1 param2 now)))) =
      accumulated_x (data dev) + accumulated_y (data dev) + movement event"
    if "layer_active (data dev)" and "idle_gate_passes (config dev) (data dev) now"
    using handle_event_active [OF that(2) that(1),
        where event = event and ?param1.0 = param1 and ?param2.0 = param2]
    by (auto split: prod.splits)
  have by_timer:
    "\<not> layer_active (fst (layer_disable_callback (data dev))) \<and>
      snd (snd (temp_layer_threshold_handle_event
                  (dev\<lparr>data := fst (layer_disable_callback (data dev))\<rparr>)
                  event param1 param2 now)) = [Layer_activate (ucast param1)]"
    if "layer_active (data dev)" and "0 <=s active_layer (data dev)"
      and "idle_gate_passes (config dev) (data dev) now"
      and "threshold (config dev) <=s
             accumulated_x (data dev) + accumulated_y (data dev) + movement event"
  proof -
    let ?dev = "dev\<lparr>data := fst (layer_disable_callback (data dev))\<rparr>"
    have off: "\<not> layer_active (data ?dev)"
      using that(1,2) by (simp add: layer_disable_callback_def)
    have gate: "idle_gate_passes (config ?dev) (data ?dev) now"
      using that(3) by (simp add: idle_gate_passes_def layer_disable_callback_def)
    have reach: "threshold (config ?dev) <=s
        accumulated_x (data ?dev) + accumulated_y (data ?dev) + movement event"
      using that(4) frame_timer by simp
    from handle_event_reach [OF gate off reach, where ?param1.0 = param1 and ?param2.0 = param2]
    show ?thesis using off by (auto split: prod.splits)
  qed
  have by_key:
    "\<not> layer_active (data (after_key_event ev dev)) \<and>
      snd (snd (temp_layer_threshold_handle_event (after_key_event ev dev)
                  event param1 param2 now)) = [Layer_activate (ucast param1)]"
    if "layer_active (data dev)" and "state ev"
      and "position ev \<notin> set (excluded_positions (config dev))"
      and "idle_gate_passes (config dev) (data (after_key_event ev dev)) now"
      and "threshold (config dev) <=s
             accumulated_x (data dev) + accumulated_y (data dev) + movement event"
  proof -
    let ?dev = "after_key_event ev dev"
    have dev': "?dev = dev\<lparr>data := (data dev)\<lparr>layer_disable_work := None,
        layer_active := False, active_layer := - 1, last_tapped_time := timestamp ev\<rparr>\<rparr>"
      using that(2) CHECK_LAYER_deactivates [OF that(1) that(3)] by (simp add: key_dev)
    have off: "\<not> layer_active (data ?dev)"
      by (simp add: dev')
    have cfg: "config ?dev = config dev"
      by (simp add: dev')
    have gate: "idle_gate_passes (config ?dev) (data ?dev) now"
      using that(4) cfg by simp
    have reach: "threshold (config ?dev) <=s
        accumulated_x (data ?dev) + accumulated_y (data ?dev) + movement event"
      using that(5) frame_key cfg by simp
    from handle_event_reach [OF gate off reach, where ?param1.0 = param1 and ?param2.0 = param2]
    show ?thesis using off by (auto split: prod.splits)
  qed
  show ?thesis
    using frame_timer frame_key while_active by_timer by_key by blast
qed

theorem C10_deactivation_keeps_accumulators_witness:
  "layer_active (data (scenario_moved 0 [])) \<and>
   accumulated_x (data (scenario_active 0 [])) = 0 \<and>
   accumulated_x (data (scenario_moved 0 [])) = 60 \<and>
   accumulated_x (fst (layer_disable_callback (data (scenario_moved 0 [])))) = 60 \<and>
   \<not> layer_active (fst (layer_disable_callback (data (scenario_moved 0 [])))) \<and>
   snd (snd (temp_layer_threshold_handle_event
     ((scenario_moved 0 [])\<lparr>data := fst (layer_disable_callback (data (scenario_moved 0 [])))\<rparr>)
     (rel_y 0) 1 200 300)) = [Layer_activate 1] \<and>
   accumulated_x (data (after_key_event (key_press 3 40) (scenario_moved 0 []))) = 60 \<and>
   \<not> layer_active (data (after_key_event (key_press 3 40) (scenario_moved 0 []))) \<and>
   snd (snd (temp_layer_threshold_handle_event
     (after_key_event (key_press 3 40) (scenario_moved 0 [])) (rel_y 0) 1 200 300)) =
     [Layer_activate 1]"
  using C10_deactivation_keeps_accumulators
    [where dev = "scenario_moved 0 []" and ev = "key_press 3 40" and event = "rel_y 0"
       and ?param1.0 = 1 and ?param2.0 = 200 and now = 300]
  by (simp add: eval_defs)

end
